theory Spec2Isabelle
  imports Main
begin

section \<open>Editor objects\<close>

text \<open>
  A \<open>vscode.Uri\<close> is a class instance. The registry compares two of them with \<open>===\<close>,
  which on objects is reference identity, so a Uri carries its object reference beside
  the one attribute the deployers read (\<open>fsPath\<close>).
\<close>

datatype Uri = Uri (uri_ref: nat) (fsPath: string)

definition strict_equals :: "Uri \<Rightarrow> Uri \<Rightarrow> bool" where
  "strict_equals a b = (uri_ref a = uri_ref b)"

record WorkspaceFolder =
  uri :: Uri
  folder_name :: string
  folder_index :: nat

text \<open>
  Modelled from the spec: the class \<open>Preferences\<close> (\<open>./preferences\<close>, not among the
  sources). The spec gives a store a back-reference to its folder, a current-language
  tag, an online flag and a stop-on-entry flag; the registry reads the \<open>workspace\<close> field
  and disposes the store, the deployers call the getters. An instance is an object, so it
  carries the reference it was allocated at.
\<close>

record Preferences =
  pref_ref :: nat
  workspace :: WorkspaceFolder
  getCurrentLanguage :: string
  getOnline :: bool
  getStopSimulationOnEntry :: bool

record IPreferencesChangedPair =
  preference :: Preferences
  pair_workspace :: WorkspaceFolder

section \<open>The preferences registry (class PreferencesAPI)\<close>

text \<open>
  The fields of the class, and beside them what the editor holds: the events the emitter
  has fired, the references on which \<open>dispose\<close> has been called, and the next free object
  reference.
\<close>

record PreferencesAPI =
  preferences :: "Preferences list"
  disposables :: "nat list"
  fired :: "IPreferencesChangedPair list list"
  disposed :: "nat list"
  next_ref :: nat

subsection \<open>getPreferences\<close>

text \<open>The \<open>for\<close> loop of \<open>getPreferences\<close>: the first store whose folder Uri is the argument's.\<close>

fun getPreferences_loop :: "Preferences list \<Rightarrow> WorkspaceFolder \<Rightarrow> Preferences option" where
  "getPreferences_loop [] w = None"
| "getPreferences_loop (p # ps) w =
     (if strict_equals (uri (workspace p)) (uri w) then Some p else getPreferences_loop ps w)"

text \<open>\<open>xs[0]\<close> of JavaScript: \<open>undefined\<close> (here \<open>None\<close>) on the empty array.\<close>

definition index0 :: "'a list \<Rightarrow> 'a option" where
  "index0 xs = (case xs of [] \<Rightarrow> None | x # _ \<Rightarrow> Some x)"

definition getPreferences :: "PreferencesAPI \<Rightarrow> WorkspaceFolder \<Rightarrow> Preferences option" where
  "getPreferences this w =
     (case getPreferences_loop (preferences this) w of
        Some p \<Rightarrow> Some p
      | None \<Rightarrow> index0 (preferences this))"

subsection \<open>getFirstOrSelectedWorkspace\<close>

text \<open>
  The editor as this method sees it: \<open>vscode.workspace.workspaceFolders\<close> (\<open>None\<close> is
  \<open>undefined\<close>) and the answer the folder picker gives when it is shown (\<open>None\<close> is a
  dismissed picker). The method returns the calls it made to the picker beside its
  result.
\<close>

record Editor =
  workspaceFolders :: "WorkspaceFolder list option"
  showWorkspaceFolderPick :: "WorkspaceFolder option"

datatype ui_call = ShowWorkspaceFolderPick

definition getFirstOrSelectedWorkspace :: "Editor \<Rightarrow> ui_call list \<times> WorkspaceFolder option" where
  "getFirstOrSelectedWorkspace ed =
     (case workspaceFolders ed of
        None \<Rightarrow> ([], None)
      | Some wp \<Rightarrow>
          if length wp > 1 then
            (case showWorkspaceFolderPick ed of
               Some res \<Rightarrow> ([ShowWorkspaceFolderPick], Some res)
             | None \<Rightarrow> ([ShowWorkspaceFolderPick], None))
          else if length wp = 1 then ([], index0 wp)
          else ([], None))"

subsection \<open>The folder-set-changed handler\<close>

text \<open>
  Modelled from the spec: \<open>Preferences.Create\<close> (\<open>./preferences\<close>, not among the sources).
  The spec has a store "created asynchronously when a folder is discovered", holding a
  back-reference to its folder and the three settings. Each call allocates a new object;
  the settings come from the folder's configuration, a parameter here.
\<close>

type_synonym settings = "WorkspaceFolder \<Rightarrow> string \<times> bool \<times> bool"

definition Preferences_Create :: "settings \<Rightarrow> nat \<Rightarrow> WorkspaceFolder \<Rightarrow> Preferences" where
  "Preferences_Create cfg r w =
     (case cfg w of (lang, onl, stop) \<Rightarrow>
        \<lparr>pref_ref = r, workspace = w, getCurrentLanguage = lang, getOnline = onl,
         getStopSimulationOnEntry = stop\<rparr>)"

text \<open>
  The loop of the handler over the folders: create a store, push it on
  \<open>this.preferences\<close>, push the pair on \<open>pairArr\<close>.
\<close>

fun handler_loop ::
  "settings \<Rightarrow> WorkspaceFolder list \<Rightarrow> PreferencesAPI \<times> IPreferencesChangedPair list \<Rightarrow>
     PreferencesAPI \<times> IPreferencesChangedPair list" where
  "handler_loop cfg [] (this, pairArr) = (this, pairArr)"
| "handler_loop cfg (w # wp) (this, pairArr) =
     (let p = Preferences_Create cfg (next_ref this) w;
          this' = this\<lparr>preferences := preferences this @ [p], next_ref := Suc (next_ref this)\<rparr>;
          pair = \<lparr>preference = p, pair_workspace = w\<rparr>
      in handler_loop cfg wp (this', pairArr @ [pair]))"

text \<open>
  The handler registered with \<open>onDidChangeWorkspaceFolders\<close>, run to completion on the
  folder list the editor holds when the event arrives (the event has no payload). The
  handler is taken as one step: the interleaving of two handlers at an \<open>await\<close> is left
  out.
\<close>

definition onDidChangeWorkspaceFolders ::
  "settings \<Rightarrow> WorkspaceFolder list option \<Rightarrow> PreferencesAPI \<Rightarrow> PreferencesAPI" where
  "onDidChangeWorkspaceFolders cfg folders this =
     (let this1 = this\<lparr>disposed := disposed this @ map pref_ref (preferences this)\<rparr> in
      case folders of
        None \<Rightarrow> this1
      | Some wp \<Rightarrow>
          (case handler_loop cfg wp (this1\<lparr>preferences := []\<rparr>, []) of
             (this2, pairArr) \<Rightarrow>
               this2\<lparr>fired := fired this2 @ [pairArr],
                     disposables := disposables this2 @ map pref_ref (preferences this2)\<rparr>))"

text \<open>
  \<open>asyncInitialize\<close>, the sibling path: an undefined folder list is treated as no folder.
  (The emitter and the event subscription it also pushes on \<open>disposables\<close> are not stores
  and are left out of the list of store references.)
\<close>

fun asyncInitialize_loop :: "settings \<Rightarrow> WorkspaceFolder list \<Rightarrow> PreferencesAPI \<Rightarrow> PreferencesAPI" where
  "asyncInitialize_loop cfg [] this = this"
| "asyncInitialize_loop cfg (w # ws) this =
     asyncInitialize_loop cfg ws
       (this\<lparr>preferences := preferences this @ [Preferences_Create cfg (next_ref this) w],
             next_ref := Suc (next_ref this)\<rparr>)"

definition asyncInitialize ::
  "settings \<Rightarrow> WorkspaceFolder list option \<Rightarrow> PreferencesAPI \<Rightarrow> PreferencesAPI" where
  "asyncInitialize cfg folders this =
     (let this1 = (case folders of None \<Rightarrow> this | Some workspaces \<Rightarrow> asyncInitialize_loop cfg workspaces this)
      in this1\<lparr>disposables := disposables this1 @ map pref_ref (preferences this1)\<rparr>)"

definition Create :: "settings \<Rightarrow> WorkspaceFolder list option \<Rightarrow> PreferencesAPI" where
  "Create cfg folders =
     asyncInitialize cfg folders
       \<lparr>preferences = [], disposables = [], fired = [], disposed = [], next_ref = 0\<rparr>"

section \<open>The host of the deployers\<close>

subsection \<open>Build descriptors\<close>

record ICppDebugInfo =
  debugfile :: string
  artifact :: string

text \<open>
  \<open>extensions\<close> is declared \<open>string\<close> and consumed with \<open>.length\<close> and \<open>for ... of\<close>; the
  field holds the sequence of strings that loop runs over (the build writes a JSON array
  of paths). Optional fields are options, \<open>sysroot\<close> is \<open>string | null\<close>.
\<close>

record ICppDebugCommand =
  name :: "string option"
  extensions :: "string list option"
  clang :: "bool option"
  launchfile :: string
  target :: string
  gdb :: string
  sysroot :: "string option"
  srcpaths :: "string list"
  headerpaths :: "string list"
  sofiles :: "string list"
  libsrcpaths :: "string list"

text \<open>
  \<open>CppQuickPick<T>\<close>; \<open>description\<close>, \<open>detail\<close> and \<open>picked\<close> are never assigned. The label
  is declared \<open>string\<close>, but the simulate variant passes \<open>i.name!\<close>, which nothing checks
  at run time: the label is absent when the name is.
\<close>

record 'a CppQuickPick =
  debugInfo :: 'a
  label :: "string option"

record ExtensionItem =
  item_label :: string
  item_path :: string

record QuickPickOptions =
  canPickMany :: "bool option"
  placeHolder :: string

subsection \<open>Launch configurations\<close>

text \<open>
  The interfaces \<open>IDebugCommands\<close>, \<open>IUnixSimulateCommands\<close> and
  \<open>IWindowsSimulateCommands\<close> are declared outside the sources; a configuration is the
  object literal the deployer writes: its properties, in order, with their values.
\<close>

datatype js_value =
    JUndefined
  | JBoolean bool
  | JString string
  | JSet "string list"
  | JWorkspaceFolder WorkspaceFolder

type_synonym js_object = "(string \<times> js_value) list"


definition get_property :: "js_object \<Rightarrow> string \<Rightarrow> js_value option" where
  "get_property obj k = map_of obj k"

subsection \<open>Collaborators and their calls\<close>

datatype js_error = TypeError | Rejected

datatype effect =
    GradleRun string string WorkspaceFolder bool
  | ReadFileAsync string
  | ShowQuickPick_ICppDebugInfo "ICppDebugInfo CppQuickPick list" QuickPickOptions
  | ShowQuickPick_ICppDebugCommand "ICppDebugCommand CppQuickPick list" QuickPickOptions
  | ShowQuickPick_extensions "ExtensionItem list" QuickPickOptions
  | ShowInformationMessage string
  | StartDebugging js_object
  | StartUnixSimulation js_object
  | StartWindowsSimulation js_object
  | ConsoleLog int

text \<open>
  What the collaborators answer. \<open>readFileAsync\<close> answers \<open>None\<close> when its promise is
  rejected; a picker answers \<open>None\<close> when it is dismissed; the three \<open>parse\<close> fields are
  \<open>jsonc.parse\<close> followed by the cast the source writes; the \<open>path\<close> fields are Node's
  \<open>path\<close> module on this host; the last field is what the host's JavaScript engine
  prints for an integral number of magnitude \<open>10^21\<close> or more.
\<close>

record Host =
  path_join :: "string list \<Rightarrow> string"
  path_dirname :: "string \<Rightarrow> string"
  path_basename :: "string \<Rightarrow> string"
  path_delimiter :: string
  getIsWindows :: bool
  gradleRun :: "string \<Rightarrow> string \<Rightarrow> WorkspaceFolder \<Rightarrow> bool \<Rightarrow> int"
  readFileAsync :: "string \<Rightarrow> string option"
  parse_ICppDebugInfo_list :: "string \<Rightarrow> ICppDebugInfo list"
  parse_ICppDebugCommand :: "string \<Rightarrow> ICppDebugCommand"
  parse_ICppDebugCommand_list :: "string \<Rightarrow> ICppDebugCommand list"
  showQuickPick_ICppDebugInfo ::
    "ICppDebugInfo CppQuickPick list \<Rightarrow> QuickPickOptions \<Rightarrow> ICppDebugInfo CppQuickPick option"
  showQuickPick_ICppDebugCommand ::
    "ICppDebugCommand CppQuickPick list \<Rightarrow> QuickPickOptions \<Rightarrow> ICppDebugCommand CppQuickPick option"
  showQuickPick_extensions ::
    "ExtensionItem list \<Rightarrow> QuickPickOptions \<Rightarrow> ExtensionItem list option"
  number_exponent_notation :: "int \<Rightarrow> string"

text \<open>
  \<open>IPreferencesAPI\<close> as the deployers use it: \<open>getPreferences\<close>, whose result is absent
  when the registry holds no store.
\<close>

type_synonym IPreferencesAPI = "WorkspaceFolder \<Rightarrow> Preferences option"

type_synonym run = "effect list \<times> (js_error + bool)"

subsection \<open>JavaScript values\<close>

text \<open>
  \<open>new Set<string>(xs)\<close>, as the sequence \<open>for ... of\<close> visits: the elements in order of
  first insertion.
\<close>

definition Set_add :: "'a list \<Rightarrow> 'a \<Rightarrow> 'a list" where
  "Set_add s x = (if x \<in> set s then s else s @ [x])"

definition new_Set :: "'a list \<Rightarrow> 'a list" where
  "new_Set xs = foldl Set_add [] xs"

text \<open>\<open>s.substring(0, e)\<close>: an end below zero counts as zero, one beyond the length as the length.\<close>

definition substring0 :: "string \<Rightarrow> int \<Rightarrow> string" where
  "substring0 s e = take (nat (max 0 (min e (int (length s))))) s"

text \<open>
  String concatenation with a team number applies ECMAScript's \<open>Number::toString\<close>. The
  embedding covers the integral numbers. Of magnitude below \<open>10^21\<close> such a number is
  printed as its decimal digits, after a minus sign when it is negative; from \<open>10^21\<close> on
  it is printed in exponent notation (\<open>1e+21\<close>), which the embedding does not compute and
  takes from the host's field \<open>number_exponent_notation\<close>.
\<close>

definition digit_char :: "nat \<Rightarrow> char" where
  "digit_char d = ''0123456789'' ! d"

fun nat_to_string :: "nat \<Rightarrow> string" where
  "nat_to_string n =
     (if n < 10 then [digit_char n] else nat_to_string (n div 10) @ [digit_char (n mod 10)])"

declare nat_to_string.simps [simp del]

definition number_to_string :: "Host \<Rightarrow> int \<Rightarrow> string" where
  "number_to_string h n =
     (if \<bar>n\<bar> < 10 ^ 21
      then (if n < 0 then CHR ''-'' # nat_to_string (nat (- n)) else nat_to_string (nat n))
      else number_exponent_notation h n)"






section \<open>The deployers\<close>

subsection \<open>The library search path\<close>

text \<open>
  Lines 89 to 97 of the debug variant, and 220 to 228 of the simulate variant: a set of
  the files, the directory of each member followed by a semicolon, the last character
  dropped.
\<close>

definition soLibPath_of :: "Host \<Rightarrow> string list \<Rightarrow> string" where
  "soLibPath_of h files =
     (let s = new_Set files;
          soPath = foldl (\<lambda>acc p. acc @ path_dirname h p @ '';'') [] s
      in substring0 soPath (int (length soPath) - 1))"

subsection \<open>The deploy-only variant\<close>

definition DeployCodeDeployer_runDeployer ::
  "Host \<Rightarrow> IPreferencesAPI \<Rightarrow> int \<Rightarrow> WorkspaceFolder \<Rightarrow> run" where
  "DeployCodeDeployer_runDeployer h api teamNumber workspace' =
     (let command = ''deploy -PteamNumber='' @ number_to_string h teamNumber in
      case api workspace' of
        None \<Rightarrow> ([], Inl TypeError)
      | Some prefs \<Rightarrow>
          let online = getOnline prefs;
              result = gradleRun h command (fsPath (uri workspace')) workspace' online;
              built = [GradleRun command (fsPath (uri workspace')) workspace' online]
          in if result \<noteq> 0 then (built, Inr False)
             else (built @ [ConsoleLog result], Inr True))"

subsection \<open>The debug variant\<close>

text \<open>
  Lines 68 to 82: the first entry of the parsed list (absent on the empty list), replaced
  by the picked one when there are several. The outer \<open>None\<close> is the \<open>return false\<close> of a
  dismissed picker.
\<close>

definition DebugCodeDeployer_select ::
  "Host \<Rightarrow> ICppDebugInfo list \<Rightarrow> effect list \<times> ICppDebugInfo option option" where
  "DebugCodeDeployer_select h parsedDebugInfo =
     (let targetDebugInfo = index0 parsedDebugInfo in
      if length parsedDebugInfo > 1 then
        (let arr = map (\<lambda>i. \<lparr>debugInfo = i, label = Some (artifact i)\<rparr>) parsedDebugInfo;
             options = \<lparr>canPickMany = None, placeHolder = ''Select an artifact''\<rparr>
         in case showQuickPick_ICppDebugInfo h arr options of
              None \<Rightarrow>
                ([ShowQuickPick_ICppDebugInfo arr options,
                  ShowInformationMessage ''Artifact cancelled''], None)
            | Some picked \<Rightarrow>
                ([ShowQuickPick_ICppDebugInfo arr options], Some (Some (debugInfo picked))))
      else ([], Some targetDebugInfo))"

text \<open>
  Line 84 reads \<open>targetDebugInfo.debugfile\<close>: a TypeError on an absent target.
\<close>

definition read_debugfile :: "ICppDebugInfo option \<Rightarrow> js_error + string" where
  "read_debugfile targetDebugInfo =
     (case targetDebugInfo of None \<Rightarrow> Inl TypeError | Some t \<Rightarrow> Inr (debugfile t))"

text \<open>Lines 84 to 117: the descriptor of the target, the configuration, the launcher.\<close>

definition DebugCodeDeployer_launch ::
  "Host \<Rightarrow> WorkspaceFolder \<Rightarrow> int \<Rightarrow> ICppDebugInfo option \<Rightarrow> run" where
  "DebugCodeDeployer_launch h workspace' result targetDebugInfo =
     (case read_debugfile targetDebugInfo of
        Inl e \<Rightarrow> ([], Inl e)
      | Inr file \<Rightarrow>
          let debugPath = path_join h [fsPath (uri workspace'), ''build'', ''debug'', file] in
          (case readFileAsync h debugPath of
            None \<Rightarrow> ([ReadFileAsync debugPath], Inl Rejected)
          | Some targetReadInfo \<Rightarrow>
              let targetInfoParsed = parse_ICppDebugCommand h targetReadInfo;
                  soPath = soLibPath_of h (sofiles targetInfoParsed);
                  sysroot' = (case sysroot targetInfoParsed of None \<Rightarrow> [] | Some r \<Rightarrow> r);
                  config =
                    [(''executablePath'', JString (launchfile targetInfoParsed)),
                     (''gdbPath'', JString (gdb targetInfoParsed)),
                     (''soLibPath'', JString soPath),
                     (''srcPaths'', JSet (new_Set (srcpaths targetInfoParsed))),
                     (''sysroot'', JString sysroot'),
                     (''target'', JString (target targetInfoParsed)),
                     (''workspace'', JWorkspaceFolder workspace')]
              in ([ReadFileAsync debugPath, StartDebugging config, ConsoleLog result], Inr True)))"

definition DebugCodeDeployer_runDeployer ::
  "Host \<Rightarrow> IPreferencesAPI \<Rightarrow> int \<Rightarrow> WorkspaceFolder \<Rightarrow> run" where
  "DebugCodeDeployer_runDeployer h api teamNumber workspace' =
     (let command = ''deploy -PdebugMode -PteamNumber='' @ number_to_string h teamNumber in
      case api workspace' of
        None \<Rightarrow> ([], Inl TypeError)
      | Some prefs \<Rightarrow>
          let online = getOnline prefs;
              result = gradleRun h command (fsPath (uri workspace')) workspace' online;
              built = [GradleRun command (fsPath (uri workspace')) workspace' online]
          in if result \<noteq> 0 then (built, Inr False)
             else
               let infoPath =
                     path_join h [fsPath (uri workspace'), ''build'', ''debug'', ''debuginfo.json''];
                   listed = built @ [ReadFileAsync infoPath]
               in (case readFileAsync h infoPath of
                    None \<Rightarrow> (listed, Inl Rejected)
                  | Some debugInfo' \<Rightarrow>
                      (case DebugCodeDeployer_select h (parse_ICppDebugInfo_list h debugInfo') of
                         (asked, None) \<Rightarrow> (listed @ asked, Inr False)
                       | (asked, Some targetDebugInfo) \<Rightarrow>
                           (case DebugCodeDeployer_launch h workspace' result targetDebugInfo of
                              (launched, r) \<Rightarrow> (listed @ asked @ launched, r)))))"

subsection \<open>The simulate variant\<close>

text \<open>Lines 179 to 194: as in the debug variant, with the name as the label.\<close>

definition SimulateCodeDeployer_select ::
  "Host \<Rightarrow> ICppDebugCommand list \<Rightarrow> effect list \<times> ICppDebugCommand option option" where
  "SimulateCodeDeployer_select h parsedSimulateInfo =
     (let targetSimulateInfo = index0 parsedSimulateInfo in
      if length parsedSimulateInfo > 1 then
        (let arr = map (\<lambda>i. \<lparr>debugInfo = i, label = name i\<rparr>) parsedSimulateInfo;
             options = \<lparr>canPickMany = None, placeHolder = ''Select an artifact''\<rparr>
         in case showQuickPick_ICppDebugCommand h arr options of
              None \<Rightarrow>
                ([ShowQuickPick_ICppDebugCommand arr options,
                  ShowInformationMessage ''Artifact cancelled''], None)
            | Some picked \<Rightarrow>
                ([ShowQuickPick_ICppDebugCommand arr options], Some (Some (debugInfo picked))))
      else ([], Some targetSimulateInfo))"

text \<open>
  Lines 196 to 217: the extensions string. Reading \<open>.length\<close> of absent extensions is a
  TypeError.
\<close>

definition SimulateCodeDeployer_extensions ::
  "Host \<Rightarrow> ICppDebugCommand \<Rightarrow> effect list \<times> (js_error + string)" where
  "SimulateCodeDeployer_extensions h targetSimulateInfo =
     (case extensions targetSimulateInfo of
        None \<Rightarrow> ([], Inl TypeError)
      | Some targetExtensions \<Rightarrow>
          if length targetExtensions > 0 then
            (let extList =
                   map (\<lambda>e. \<lparr>item_label = path_basename h e, item_path = e\<rparr>) targetExtensions;
                 options = \<lparr>canPickMany = Some True, placeHolder = ''Pick extensions to run''\<rparr>
             in case showQuickPick_extensions h extList options of
                  None \<Rightarrow> ([ShowQuickPick_extensions extList options], Inr [])
                | Some quickPick \<Rightarrow>
                    ([ShowQuickPick_extensions extList options],
                     Inr (foldl (\<lambda>acc qp. acc @ item_path qp @ path_delimiter h) [] quickPick)))
          else ([], Inr []))"

text \<open>Lines 219 to 252: the branch on the platform, the configuration, the launcher.\<close>

definition SimulateCodeDeployer_launch ::
  "Host \<Rightarrow> IPreferencesAPI \<Rightarrow> WorkspaceFolder \<Rightarrow> ICppDebugCommand \<Rightarrow> string \<Rightarrow> run" where
  "SimulateCodeDeployer_launch h api workspace' targetSimulateInfo exts =
     (if \<not> getIsWindows h then
        (let soPath = soLibPath_of h (sofiles targetSimulateInfo) in
         case api workspace' of
           None \<Rightarrow> ([], Inl TypeError)
         | Some prefs \<Rightarrow>
             let config =
                   [(''clang'', (case clang targetSimulateInfo of
                                   None \<Rightarrow> JUndefined | Some b \<Rightarrow> JBoolean b)),
                    (''executablePath'', JString (launchfile targetSimulateInfo)),
                    (''extensions'', JString exts),
                    (''soLibPath'', JString soPath),
                    (''srcPaths'', JSet (new_Set (srcpaths targetSimulateInfo))),
                    (''stopAtEntry'', JBoolean (getStopSimulationOnEntry prefs)),
                    (''workspace'', JWorkspaceFolder workspace')]
             in ([StartUnixSimulation config], Inr True))
      else
        (case api workspace' of
           None \<Rightarrow> ([], Inl TypeError)
         | Some prefs \<Rightarrow>
             let config =
                   [(''extensions'', JString exts),
                    (''launchfile'', JString (launchfile targetSimulateInfo)),
                    (''stopAtEntry'', JBoolean (getStopSimulationOnEntry prefs)),
                    (''workspace'', JWorkspaceFolder workspace')]
             in ([StartWindowsSimulation config], Inr True)))"

text \<open>
  The team number is the parameter the source names \<open>_\<close>. Line 198 reads
  \<open>targetSimulateInfo.extensions\<close>: a TypeError on an absent target.
\<close>

fun SimulateCodeDeployer_runDeployer ::
  "Host \<Rightarrow> IPreferencesAPI \<Rightarrow> int \<Rightarrow> WorkspaceFolder \<Rightarrow> run" where
  "SimulateCodeDeployer_runDeployer h api _ workspace' =
     (let command = ''simulateExternalCpp'' in
      case api workspace' of
        None \<Rightarrow> ([], Inl TypeError)
      | Some prefs \<Rightarrow>
          let online = getOnline prefs;
              result = gradleRun h command (fsPath (uri workspace')) workspace' online;
              built = [GradleRun command (fsPath (uri workspace')) workspace' online]
          in if result \<noteq> 0 then (built, Inr False)
             else
               let infoPath =
                     path_join h [fsPath (uri workspace'), ''build'', ''debug'', ''desktopinfo.json''];
                   listed = built @ [ReadFileAsync infoPath]
               in (case readFileAsync h infoPath of
                    None \<Rightarrow> (listed, Inl Rejected)
                  | Some simulateInfo \<Rightarrow>
                      (case SimulateCodeDeployer_select h (parse_ICppDebugCommand_list h simulateInfo) of
                         (asked, None) \<Rightarrow> (listed @ asked, Inr False)
                       | (asked, Some None) \<Rightarrow> (listed @ asked, Inl TypeError)
                       | (asked, Some (Some targetSimulateInfo)) \<Rightarrow>
                           (case SimulateCodeDeployer_extensions h targetSimulateInfo of
                              (chosen, Inl e) \<Rightarrow> (listed @ asked @ chosen, Inl e)
                            | (chosen, Inr exts) \<Rightarrow>
                                (case SimulateCodeDeployer_launch h api workspace'
                                        targetSimulateInfo exts of
                                   (launched, r) \<Rightarrow> (listed @ asked @ chosen @ launched, r))))))"

declare SimulateCodeDeployer_runDeployer.simps [simp del]

subsection \<open>The composition root (class DebugDeploy)\<close>

datatype CodeDeployer =
    DebugCodeDeployer IPreferencesAPI
  | DeployCodeDeployer IPreferencesAPI
  | SimulateCodeDeployer IPreferencesAPI

fun runDeployer :: "Host \<Rightarrow> CodeDeployer \<Rightarrow> int \<Rightarrow> WorkspaceFolder \<Rightarrow> run" where
  "runDeployer h (DebugCodeDeployer api) teamNumber w = DebugCodeDeployer_runDeployer h api teamNumber w"
| "runDeployer h (DeployCodeDeployer api) teamNumber w = DeployCodeDeployer_runDeployer h api teamNumber w"
| "runDeployer h (SimulateCodeDeployer api) teamNumber w = SimulateCodeDeployer_runDeployer h api teamNumber w"

text \<open>The calls the constructor makes on \<open>debugDeployApi\<close>, in order.\<close>

datatype registry_call =
    AddLanguageChoice string
  | RegisterCodeDeploy CodeDeployer
  | RegisterCodeDebug CodeDeployer
  | RegisterCodeSimulate CodeDeployer

record DebugDeploy =
  debugDeployer :: CodeDeployer
  deployDeployer :: CodeDeployer
  simulator :: CodeDeployer

definition DebugDeploy_constructor ::
  "IPreferencesAPI \<Rightarrow> bool \<Rightarrow> DebugDeploy \<times> registry_call list" where
  "DebugDeploy_constructor prefs allowDebug =
     (let this = \<lparr>debugDeployer = DebugCodeDeployer prefs,
                  deployDeployer = DeployCodeDeployer prefs,
                  simulator = SimulateCodeDeployer prefs\<rparr>;
          calls = [AddLanguageChoice ''cpp'', RegisterCodeDeploy (deployDeployer this)]
      in if allowDebug
         then (this, calls @ [RegisterCodeDebug (debugDeployer this),
                              RegisterCodeSimulate (simulator this)])
         else (this, calls))"

text \<open>
  \<open>dispose()\<close> has an empty body: the calls it makes on the registry, and the effects it
  has on the host.
\<close>

definition DebugDeploy_dispose :: "DebugDeploy \<Rightarrow> registry_call list \<times> effect list" where
  "DebugDeploy_dispose this = ([], [])"

text \<open>The launcher calls of a run, in order.\<close>

fun is_launch :: "effect \<Rightarrow> bool" where
  "is_launch (StartDebugging _) = True"
| "is_launch (StartUnixSimulation _) = True"
| "is_launch (StartWindowsSimulation _) = True"
| "is_launch _ = False"

definition launches :: "effect list \<Rightarrow> effect list" where
  "launches es = filter is_launch es"



section \<open>A POSIX host, for running the deployers on examples\<close>

text \<open>
  \<open>path.dirname\<close> and \<open>path.basename\<close> of Node on POSIX: trailing separators are skipped,
  then the last component; \<open>dirname\<close> keeps what is before the separator in front of it.
\<close>

definition posix_dirname :: "string \<Rightarrow> string" where
  "posix_dirname p =
     (if p = [] then ''.''
      else
        let hasRoot = (hd p = CHR ''/'');
            r = dropWhile (\<lambda>c. c \<noteq> CHR ''/'') (dropWhile (\<lambda>c. c = CHR ''/'') (rev (tl p)))
        in if r = [] then (if hasRoot then ''/'' else ''.'')
           else if hasRoot \<and> length r = 1 then ''//''
           else take (length r) p)"

definition posix_basename :: "string \<Rightarrow> string" where
  "posix_basename p = rev (takeWhile (\<lambda>c. c \<noteq> CHR ''/'') (dropWhile (\<lambda>c. c = CHR ''/'') (rev p)))"

text \<open>
  \<open>path.join\<close> on segments that need no normalisation (no empty, \<open>.\<close> or \<open>..\<close> segment, no
  separator at either end of a later segment): the segments with a separator between.
\<close>

fun posix_join :: "string list \<Rightarrow> string" where
  "posix_join [] = ''.''"
| "posix_join [s] = s"
| "posix_join (s # ss) = s @ ''/'' @ posix_join ss"

definition folder_r :: WorkspaceFolder where
  "folder_r = \<lparr>uri = Uri 1 ''/r'', folder_name = ''r'', folder_index = 0\<rparr>"

definition folder_s :: WorkspaceFolder where
  "folder_s = \<lparr>uri = Uri 2 ''/s'', folder_name = ''s'', folder_index = 1\<rparr>"

definition example_settings :: settings where
  "example_settings w = (''cpp'', True, False)"

definition example_artifacts :: "ICppDebugInfo list" where
  "example_artifacts =
     [\<lparr>debugfile = ''frcUserProgram.json'', artifact = ''frcUserProgram''\<rparr>,
      \<lparr>debugfile = ''vision.json'', artifact = ''vision''\<rparr>]"

definition example_target :: ICppDebugCommand where
  "example_target =
     \<lparr>name = Some ''frcUserProgram'',
      extensions = Some [''/r/build/ext/libhalsim_gui.so''],
      clang = Some False,
      launchfile = ''/r/build/exe/frcUserProgram'',
      target = ''10.9.0.2:8349'',
      gdb = ''/usr/bin/gdb'',
      sysroot = None,
      srcpaths = [''/r/src/main/cpp''],
      headerpaths = [''/r/src/main/include''],
      sofiles = [''/a/x.so'', ''/a/y.so'', ''/b/z.so''],
      libsrcpaths = []\<rparr>"

text \<open>
  A host on which the build succeeds, every file is readable (its text stands for its
  path), the artifact index lists two artifacts, the simulate index one target, and
  every picker is dismissed. Its exponent notation is that of \<open>10^21\<close> and \<open>-10^21\<close>; the
  examples run on smaller team numbers.
\<close>

definition example_host :: Host where
  "example_host =
     \<lparr>path_join = posix_join,
      path_dirname = posix_dirname,
      path_basename = posix_basename,
      path_delimiter = '':'',
      getIsWindows = False,
      gradleRun = (\<lambda>command dir w online. 0),
      readFileAsync = (\<lambda>p. Some p),
      parse_ICppDebugInfo_list = (\<lambda>text. example_artifacts),
      parse_ICppDebugCommand = (\<lambda>text. example_target),
      parse_ICppDebugCommand_list = (\<lambda>text. [example_target]),
      showQuickPick_ICppDebugInfo = (\<lambda>items options. None),
      showQuickPick_ICppDebugCommand = (\<lambda>items options. None),
      showQuickPick_extensions = (\<lambda>items options. None),
      number_exponent_notation = (\<lambda>n. if n < 0 then ''-1e+21'' else ''1e+21'')\<rparr>"

section \<open>Lookup in the registry\<close>

lemma getPreferences_loop_Some:
  "getPreferences_loop ps w = Some p \<Longrightarrow>
     p \<in> set ps \<and> strict_equals (uri (workspace p)) (uri w)"
  by (induction ps) (auto split: if_splits)

lemma getPreferences_loop_None:
  "getPreferences_loop ps w = None \<longleftrightarrow>
     (\<forall>p \<in> set ps. \<not> strict_equals (uri (workspace p)) (uri w))"
  by (induction ps) auto

lemma getPreferences_loop_first:
  "getPreferences_loop ps w = Some p \<Longrightarrow>
     \<exists>before after. ps = before @ p # after \<and>
       (\<forall>q \<in> set before. \<not> strict_equals (uri (workspace q)) (uri w))"
proof (induction ps)
  case Nil
  then show ?case by simp
next
  case (Cons q qs)
  show ?case
  proof (cases "strict_equals (uri (workspace q)) (uri w)")
    case True
    with Cons.prems have "q = p" by simp
    then have "q # qs = [] @ p # qs \<and>
        (\<forall>r \<in> set []. \<not> strict_equals (uri (workspace r)) (uri w))" by simp
    then show ?thesis by (intro exI)
  next
    case False
    with Cons.prems have "getPreferences_loop qs w = Some p" by simp
    from Cons.IH [OF this] obtain before after where
      *: "qs = before @ p # after"
         "\<forall>r \<in> set before. \<not> strict_equals (uri (workspace r)) (uri w)"
      by blast
    from * False have "q # qs = (q # before) @ p # after"
      "\<forall>r \<in> set (q # before). \<not> strict_equals (uri (workspace r)) (uri w)"
      by simp_all
    then show ?thesis by blast
  qed
qed

text \<open>
  C3. \<open>getPreferences\<close> has no failing branch: its result is a store or the absent value.
  When some held store's folder Uri is the argument's, the result is such a store (the
  first one in the sequence); when none is, the result is the first store of the
  sequence; on the empty sequence the result is absent.
\<close>

theorem getPreferences_total:
  "((\<exists>q \<in> set (preferences this). strict_equals (uri (workspace q)) (uri w)) \<longrightarrow>
      (\<exists>p. getPreferences this w = Some p \<and> p \<in> set (preferences this) \<and>
           strict_equals (uri (workspace p)) (uri w) \<and>
           getPreferences_loop (preferences this) w = Some p)) \<and>
   ((\<forall>q \<in> set (preferences this). \<not> strict_equals (uri (workspace q)) (uri w)) \<longrightarrow>
      preferences this \<noteq> [] \<longrightarrow>
      getPreferences this w = Some (hd (preferences this))) \<and>
   (preferences this = [] \<longrightarrow> getPreferences this w = None)"
proof (intro conjI impI)
  assume "\<exists>q \<in> set (preferences this). strict_equals (uri (workspace q)) (uri w)"
  then have "getPreferences_loop (preferences this) w \<noteq> None"
    by (simp add: getPreferences_loop_None)
  then obtain p where p: "getPreferences_loop (preferences this) w = Some p"
    by blast
  from getPreferences_loop_Some [OF p] p
  show "\<exists>p. getPreferences this w = Some p \<and> p \<in> set (preferences this) \<and>
           strict_equals (uri (workspace p)) (uri w) \<and>
           getPreferences_loop (preferences this) w = Some p"
    by (simp add: getPreferences_def)
next
  assume "\<forall>q \<in> set (preferences this). \<not> strict_equals (uri (workspace q)) (uri w)"
    and "preferences this \<noteq> []"
  then have "getPreferences_loop (preferences this) w = None"
    and "index0 (preferences this) = Some (hd (preferences this))"
    by (simp_all add: getPreferences_loop_None index0_def split: list.splits)
  then show "getPreferences this w = Some (hd (preferences this))"
    by (simp add: getPreferences_def)
next
  assume "preferences this = []"
  then show "getPreferences this w = None"
    by (simp add: getPreferences_def index0_def)
qed

text \<open>
  On a registry of two folders: the second folder finds its own store, a folder the
  registry does not hold gets the first store, and the empty registry answers absent.
\<close>

theorem getPreferences_total_witness:
  "getPreferences (Create example_settings (Some [folder_r, folder_s])) folder_s =
     Some \<lparr>pref_ref = 1, workspace = folder_s, getCurrentLanguage = ''cpp'', getOnline = True,
           getStopSimulationOnEntry = False\<rparr> \<and>
   getPreferences (Create example_settings (Some [folder_r, folder_s]))
       \<lparr>uri = Uri 3 ''/t'', folder_name = ''t'', folder_index = 2\<rparr> =
     Some \<lparr>pref_ref = 0, workspace = folder_r, getCurrentLanguage = ''cpp'', getOnline = True,
           getStopSimulationOnEntry = False\<rparr> \<and>
   getPreferences (Create example_settings None) folder_r = None"
  using
    getPreferences_total [of "Create example_settings (Some [folder_r, folder_s])" folder_s]
    getPreferences_total [of "Create example_settings (Some [folder_r, folder_s])"
      "\<lparr>uri = Uri 3 ''/t'', folder_name = ''t'', folder_index = 2\<rparr>"]
    getPreferences_total [of "Create example_settings None" folder_r]
  by (simp add: Create_def asyncInitialize_def Preferences_Create_def example_settings_def
      strict_equals_def folder_r_def folder_s_def)

section \<open>Choosing a folder\<close>

text \<open>
  C6. \<open>getFirstOrSelectedWorkspace\<close> answers absent, without showing the picker, when the
  folder list is undefined or empty; answers the only folder, without showing the picker,
  when there is exactly one; and with two or more folders shows the picker once and
  answers what the picker gave (absent when it was dismissed).
\<close>

theorem getFirstOrSelectedWorkspace_branches:
  "((workspaceFolders ed = None \<or> workspaceFolders ed = Some []) \<longrightarrow>
      getFirstOrSelectedWorkspace ed = ([], None)) \<and>
   (\<forall>w. workspaceFolders ed = Some [w] \<longrightarrow> getFirstOrSelectedWorkspace ed = ([], Some w)) \<and>
   (\<forall>wp. workspaceFolders ed = Some wp \<longrightarrow> 2 \<le> length wp \<longrightarrow>
      getFirstOrSelectedWorkspace ed = ([ShowWorkspaceFolderPick], showWorkspaceFolderPick ed))"
  by (auto simp: getFirstOrSelectedWorkspace_def index0_def split: option.splits)

theorem getFirstOrSelectedWorkspace_branches_witness:
  "getFirstOrSelectedWorkspace \<lparr>workspaceFolders = None, showWorkspaceFolderPick = Some folder_r\<rparr>
     = ([], None) \<and>
   getFirstOrSelectedWorkspace \<lparr>workspaceFolders = Some [], showWorkspaceFolderPick = Some folder_r\<rparr>
     = ([], None) \<and>
   getFirstOrSelectedWorkspace \<lparr>workspaceFolders = Some [folder_s], showWorkspaceFolderPick = Some folder_r\<rparr>
     = ([], Some folder_s) \<and>
   getFirstOrSelectedWorkspace
     \<lparr>workspaceFolders = Some [folder_r, folder_s], showWorkspaceFolderPick = Some folder_s\<rparr>
     = ([ShowWorkspaceFolderPick], Some folder_s) \<and>
   getFirstOrSelectedWorkspace
     \<lparr>workspaceFolders = Some [folder_r, folder_s], showWorkspaceFolderPick = None\<rparr>
     = ([ShowWorkspaceFolderPick], None)"
  using
    getFirstOrSelectedWorkspace_branches
      [of "\<lparr>workspaceFolders = None, showWorkspaceFolderPick = Some folder_r\<rparr>"]
    getFirstOrSelectedWorkspace_branches
      [of "\<lparr>workspaceFolders = Some [], showWorkspaceFolderPick = Some folder_r\<rparr>"]
    getFirstOrSelectedWorkspace_branches
      [of "\<lparr>workspaceFolders = Some [folder_s], showWorkspaceFolderPick = Some folder_r\<rparr>"]
    getFirstOrSelectedWorkspace_branches
      [of "\<lparr>workspaceFolders = Some [folder_r, folder_s], showWorkspaceFolderPick = Some folder_s\<rparr>"]
    getFirstOrSelectedWorkspace_branches
      [of "\<lparr>workspaceFolders = Some [folder_r, folder_s], showWorkspaceFolderPick = None\<rparr>"]
  by simp

section \<open>The rebuild on a folder-set change\<close>

lemma Preferences_Create_sel [simp]:
  "pref_ref (Preferences_Create cfg r w) = r" "workspace (Preferences_Create cfg r w) = w"
  by (simp_all add: Preferences_Create_def split: prod.splits)

lemma handler_loop_eq:
  "handler_loop cfg wp (this, pairArr) =
     (this\<lparr>preferences :=
              preferences this @
              map (\<lambda>(r, w). Preferences_Create cfg r w) (enumerate (next_ref this) wp),
            next_ref := next_ref this + length wp\<rparr>,
      pairArr @
      map (\<lambda>(r, w). \<lparr>preference = Preferences_Create cfg r w, pair_workspace = w\<rparr>)
        (enumerate (next_ref this) wp))"
  by (induction wp arbitrary: this pairArr) (simp_all add: Let_def)

text \<open>What the handler does when the folder list is defined.\<close>

lemma handler_defined:
  "onDidChangeWorkspaceFolders cfg (Some wp) this =
     this\<lparr>disposed := disposed this @ map pref_ref (preferences this),
           preferences := map (\<lambda>(r, w). Preferences_Create cfg r w) (enumerate (next_ref this) wp),
           next_ref := next_ref this + length wp,
           fired := fired this @
             [map (\<lambda>(r, w). \<lparr>preference = Preferences_Create cfg r w, pair_workspace = w\<rparr>)
                (enumerate (next_ref this) wp)],
           disposables := disposables this @
             map pref_ref (map (\<lambda>(r, w). Preferences_Create cfg r w) (enumerate (next_ref this) wp))\<rparr>"
  by (simp add: onDidChangeWorkspaceFolders_def handler_loop_eq Let_def)

text \<open>What it does when the list is undefined: dispose, and nothing else.\<close>

lemma handler_undefined:
  "onDidChangeWorkspaceFolders cfg None this =
     this\<lparr>disposed := disposed this @ map pref_ref (preferences this)\<rparr>"
  by (simp add: onDidChangeWorkspaceFolders_def)

text \<open>
  With a defined folder list the handler does rebuild: every store held before is
  disposed, one event is fired, holding one pair per folder and exactly the new stores,
  and every lookup afterwards answers a store allocated by this rebuild.
\<close>

lemma handler_defined_rebuild:
  assumes "after = onDidChangeWorkspaceFolders cfg (Some wp) this"
  shows "set (map pref_ref (preferences this)) \<subseteq> set (disposed after)"
    and "fired after =
           fired this @ [map (\<lambda>p. \<lparr>preference = p, pair_workspace = workspace p\<rparr>) (preferences after)]"
    and "map workspace (preferences after) = wp"
    and "map pref_ref (preferences after) = [next_ref this ..< next_ref this + length wp]"
    and "f \<in> set wp \<Longrightarrow>
           \<exists>p \<in> set (preferences after). getPreferences after f = Some p \<and> next_ref this \<le> pref_ref p"
    and "getPreferences after g = Some p \<Longrightarrow>
           p \<in> set (preferences after) \<and> next_ref this \<le> pref_ref p"
proof -
  let ?created = "map (\<lambda>(r, w). Preferences_Create cfg r w) (enumerate (next_ref this) wp)"
  have prefs: "preferences after = ?created"
    using assms by (simp add: handler_defined)
  show "set (map pref_ref (preferences this)) \<subseteq> set (disposed after)"
    using assms by (simp add: handler_defined)
  show "fired after =
          fired this @ [map (\<lambda>p. \<lparr>preference = p, pair_workspace = workspace p\<rparr>) (preferences after)]"
    using assms by (simp add: handler_defined split_beta)
  show ws: "map workspace (preferences after) = wp"
    unfolding prefs by (simp add: split_beta comp_def)
  show refs: "map pref_ref (preferences after) = [next_ref this ..< next_ref this + length wp]"
    unfolding prefs by (simp add: split_beta comp_def)
  have fresh: "next_ref this \<le> pref_ref q" if "q \<in> set (preferences after)" for q
  proof -
    from that have "pref_ref q \<in> set (map pref_ref (preferences after))" by simp
    then show ?thesis unfolding refs by simp
  qed
  show mem: "p \<in> set (preferences after) \<and> next_ref this \<le> pref_ref p"
    if "getPreferences after g = Some p" for g p
  proof -
    from that have "p \<in> set (preferences after)"
      by (auto simp: getPreferences_def index0_def
          split: option.splits list.splits dest: getPreferences_loop_Some)
    with fresh show ?thesis by simp
  qed
  show "\<exists>p \<in> set (preferences after). getPreferences after f = Some p \<and> next_ref this \<le> pref_ref p"
    if "f \<in> set wp"
  proof -
    from that ws have "preferences after \<noteq> []" by auto
    then obtain p where "getPreferences after f = Some p"
      by (cases "getPreferences_loop (preferences after) f"; cases "preferences after")
         (auto simp: getPreferences_def index0_def)
    with mem show ?thesis by blast
  qed
qed


section \<open>The library search path\<close>

lemma soLibPath_loop:
  "foldl (\<lambda>acc p. acc @ path_dirname h p @ '';'') acc s =
     acc @ concat (map (\<lambda>p. path_dirname h p @ '';'') s)"
  by (induction s arbitrary: acc) simp_all

lemma substring0_butlast: "substring0 s (int (length s) - 1) = butlast s"
proof -
  have "nat (max 0 (min (int (length s) - 1) (int (length s)))) = length s - 1"
    by arith
  then show ?thesis
    by (simp add: substring0_def butlast_conv_take)
qed

text \<open>
  What the code derives: one directory per member of the set of files, each followed by
  a semicolon, the last semicolon dropped.
\<close>

lemma soLibPath_of_eq:
  "soLibPath_of h files = butlast (concat (map (\<lambda>p. path_dirname h p @ '';'') (new_Set files)))"
  by (simp add: soLibPath_of_def Let_def soLibPath_loop substring0_butlast)

text \<open>
  C2. The claim: the derived path holds the directory of each listed file exactly once.
  The set is a set of files, so two files of one directory give that directory twice:
  for \<open>/a/x.so\<close>, \<open>/a/y.so\<close>, \<open>/b/z.so\<close> the path is \<open>/a;/a;/b\<close>, and that is the
  \<open>soLibPath\<close> the debug variant hands to the debug launcher when the descriptor of its
  target lists these files.
\<close>

theorem soLibPath_of_repeats_directory:
  "soLibPath_of example_host [''/a/x.so'', ''/a/y.so'', ''/b/z.so''] = ''/a;/a;/b'' \<and>
   sofiles example_target = [''/a/x.so'', ''/a/y.so'', ''/b/z.so''] \<and>
   launches (fst (DebugCodeDeployer_runDeployer
       (example_host\<lparr>parse_ICppDebugInfo_list := (\<lambda>text. [hd example_artifacts])\<rparr>)
       (getPreferences (Create example_settings (Some [folder_r]))) 900 folder_r)) =
     [StartDebugging
        [(''executablePath'', JString ''/r/build/exe/frcUserProgram''),
         (''gdbPath'', JString ''/usr/bin/gdb''),
         (''soLibPath'', JString ''/a;/a;/b''),
         (''srcPaths'', JSet [''/r/src/main/cpp'']),
         (''sysroot'', JString []),
         (''target'', JString ''10.9.0.2:8349''),
         (''workspace'', JWorkspaceFolder folder_r)]]"
proof -
  have api: "getPreferences (Create example_settings (Some [folder_r])) folder_r =
      Some \<lparr>pref_ref = 0, workspace = folder_r, getCurrentLanguage = ''cpp'', getOnline = True,
            getStopSimulationOnEntry = False\<rparr>"
    by (simp add: getPreferences_def Create_def asyncInitialize_def Preferences_Create_def
        example_settings_def strict_equals_def)
  have path: "soLibPath_of example_host [''/a/x.so'', ''/a/y.so'', ''/b/z.so''] = ''/a;/a;/b''"
    by (simp add: soLibPath_of_def example_host_def new_Set_def Set_add_def posix_dirname_def
        substring0_def)
  have dir: "fsPath (uri folder_r) = ''/r''"
    by (simp add: folder_r_def)
  show ?thesis
    by (simp add: path)
       (simp add: DebugCodeDeployer_runDeployer_def api dir DebugCodeDeployer_select_def
          DebugCodeDeployer_launch_def read_debugfile_def soLibPath_of_def new_Set_def
          Set_add_def substring0_def posix_dirname_def launches_def
          example_host_def example_artifacts_def example_target_def
          number_to_string_def nat_to_string.simps digit_char_def index0_def Let_def)
qed

section \<open>Printing a team number\<close>















section \<open>The deploy-only variant\<close>



lemma example_api_r:
  "getPreferences (Create example_settings (Some [folder_r])) folder_r =
     Some \<lparr>pref_ref = 0, workspace = folder_r, getCurrentLanguage = ''cpp'', getOnline = True,
           getStopSimulationOnEntry = False\<rparr>"
  by (simp add: getPreferences_def Create_def asyncInitialize_def Preferences_Create_def
      example_settings_def strict_equals_def)


section \<open>The composition root\<close>

text \<open>
  C8. Whatever \<open>allowDebug\<close> is, the constructor registers the one language tag \<open>cpp\<close>, then
  the deploy-only deployer; it registers the debug and the simulate deployer after them
  exactly when \<open>allowDebug\<close> holds, and makes no other call. The three registered objects
  run the deploy-only, the debug and the simulate variant. \<open>dispose\<close> does nothing.
\<close>

theorem DebugDeploy_registrations:
  "snd (DebugDeploy_constructor prefs allowDebug) =
     [AddLanguageChoice ''cpp'', RegisterCodeDeploy (DeployCodeDeployer prefs)] @
     (if allowDebug
      then [RegisterCodeDebug (DebugCodeDeployer prefs), RegisterCodeSimulate (SimulateCodeDeployer prefs)]
      else []) \<and>
   fst (DebugDeploy_constructor prefs allowDebug) =
     \<lparr>debugDeployer = DebugCodeDeployer prefs, deployDeployer = DeployCodeDeployer prefs,
      simulator = SimulateCodeDeployer prefs\<rparr> \<and>
   runDeployer h (DeployCodeDeployer prefs) = DeployCodeDeployer_runDeployer h prefs \<and>
   runDeployer h (DebugCodeDeployer prefs) = DebugCodeDeployer_runDeployer h prefs \<and>
   runDeployer h (SimulateCodeDeployer prefs) = SimulateCodeDeployer_runDeployer h prefs \<and>
   DebugDeploy_dispose this = ([], [])"
  by (simp add: DebugDeploy_constructor_def DebugDeploy_dispose_def Let_def fun_eq_iff)

section \<open>The debug variant\<close>

text \<open>
  C9. When the parsed artifact index is not empty, the target the selection hands on
  (the first entry, or the picked one) is present, and reading its \<open>debugfile\<close> gives a
  value. On the empty index the first entry is absent, the selection hands that absent
  target on without asking, and reading \<open>debugfile\<close> of it is a TypeError, before any
  file is read or launcher called.
\<close>

theorem debug_target_present:
  "(parsed \<noteq> [] \<longrightarrow>
      (\<forall>asked tgt. DebugCodeDeployer_select h parsed = (asked, Some tgt) \<longrightarrow>
         (\<exists>t. tgt = Some t \<and> read_debugfile tgt = Inr (debugfile t)))) \<and>
   index0 ([] :: ICppDebugInfo list) = None \<and>
   DebugCodeDeployer_select h [] = ([], Some None) \<and>
   read_debugfile None = Inl TypeError \<and>
   DebugCodeDeployer_launch h w result None = ([], Inl TypeError)"
  by (auto simp: DebugCodeDeployer_select_def read_debugfile_def index0_def Let_def
      DebugCodeDeployer_launch_def split: option.splits list.splits)

text \<open>
  An index of one artifact, and the index of two on a host whose user picks the second.
\<close>

theorem debug_target_present_witness:
  "DebugCodeDeployer_select example_host [hd example_artifacts] =
     ([], Some (Some \<lparr>debugfile = ''frcUserProgram.json'', artifact = ''frcUserProgram''\<rparr>)) \<and>
   read_debugfile (Some \<lparr>debugfile = ''frcUserProgram.json'', artifact = ''frcUserProgram''\<rparr>) =
     Inr ''frcUserProgram.json'' \<and>
   snd (DebugCodeDeployer_select
          (example_host\<lparr>showQuickPick_ICppDebugInfo := (\<lambda>items options. index0 (tl items))\<rparr>)
          example_artifacts) =
     Some (Some \<lparr>debugfile = ''vision.json'', artifact = ''vision''\<rparr>) \<and>
   read_debugfile (Some \<lparr>debugfile = ''vision.json'', artifact = ''vision''\<rparr>) = Inr ''vision.json''"
  using
    debug_target_present [of "[hd example_artifacts]" example_host]
    debug_target_present [of example_artifacts
      "example_host\<lparr>showQuickPick_ICppDebugInfo := (\<lambda>items options. index0 (tl items))\<rparr>"]
  by (simp add: DebugCodeDeployer_select_def example_artifacts_def example_host_def index0_def
      read_debugfile_def Let_def)

section \<open>Launcher calls and dismissed pickers\<close>

lemma launches_Nil [simp]: "launches [] = []"
  by (simp add: launches_def)

lemma launches_Cons [simp]:
  "launches (e # es) = (if is_launch e then e # launches es else launches es)"
  by (simp add: launches_def)

lemma launches_append [simp]: "launches (xs @ ys) = launches xs @ launches ys"
  by (simp add: launches_def)

lemma debug_select_launches: "launches (fst (DebugCodeDeployer_select h parsed)) = []"
  by (simp add: DebugCodeDeployer_select_def Let_def split: option.splits)

lemma debug_select_dismissed:
  "ShowQuickPick_ICppDebugInfo arr opts \<in> set (fst (DebugCodeDeployer_select h parsed)) \<Longrightarrow>
   showQuickPick_ICppDebugInfo h arr opts = None \<Longrightarrow>
   snd (DebugCodeDeployer_select h parsed) = None"
  by (auto simp: DebugCodeDeployer_select_def Let_def split: option.splits if_splits)

lemma debug_launch_no_pick:
  "ShowQuickPick_ICppDebugInfo arr opts \<notin> set (fst (DebugCodeDeployer_launch h w result tgt))"
  by (simp add: DebugCodeDeployer_launch_def Let_def split: option.splits sum.splits)

lemma debug_cancel:
  assumes "ShowQuickPick_ICppDebugInfo arr opts \<in> set (fst (DebugCodeDeployer_runDeployer h api t w))"
    and "showQuickPick_ICppDebugInfo h arr opts = None"
  shows "snd (DebugCodeDeployer_runDeployer h api t w) = Inr False \<and>
         launches (fst (DebugCodeDeployer_runDeployer h api t w)) = []"
  using assms
  by (auto simp: DebugCodeDeployer_runDeployer_def Let_def split_beta
        debug_select_launches debug_launch_no_pick
      split: option.splits if_splits
      dest: debug_select_dismissed)

lemma select_launches: "launches (fst (SimulateCodeDeployer_select h parsed)) = []"
  by (simp add: SimulateCodeDeployer_select_def Let_def split: option.splits)

lemma select_no_extension_pick:
  "ShowQuickPick_extensions items opts \<notin> set (fst (SimulateCodeDeployer_select h parsed))"
  by (simp add: SimulateCodeDeployer_select_def Let_def split: option.splits)

lemma extensions_launches: "launches (fst (SimulateCodeDeployer_extensions h tgt)) = []"
  by (simp add: SimulateCodeDeployer_extensions_def Let_def split: option.splits)

lemma extensions_dismissed:
  "ShowQuickPick_extensions items opts \<in> set (fst (SimulateCodeDeployer_extensions h tgt)) \<Longrightarrow>
   showQuickPick_extensions h items opts = None \<Longrightarrow>
   snd (SimulateCodeDeployer_extensions h tgt) = Inr []"
  by (auto simp: SimulateCodeDeployer_extensions_def Let_def split: option.splits if_splits)

lemma SimulateCodeDeployer_launch_unix:
  "api w = Some prefs \<Longrightarrow> \<not> getIsWindows h \<Longrightarrow>
     SimulateCodeDeployer_launch h api w t exts =
       ([StartUnixSimulation
           [(''clang'', (case clang t of None \<Rightarrow> JUndefined | Some b \<Rightarrow> JBoolean b)),
            (''executablePath'', JString (launchfile t)),
            (''extensions'', JString exts),
            (''soLibPath'', JString (soLibPath_of h (sofiles t))),
            (''srcPaths'', JSet (new_Set (srcpaths t))),
            (''stopAtEntry'', JBoolean (getStopSimulationOnEntry prefs)),
            (''workspace'', JWorkspaceFolder w)]],
        Inr True)"
  by (simp add: SimulateCodeDeployer_launch_def Let_def)

lemma SimulateCodeDeployer_launch_windows:
  "api w = Some prefs \<Longrightarrow> getIsWindows h \<Longrightarrow>
     SimulateCodeDeployer_launch h api w t exts =
       ([StartWindowsSimulation
           [(''extensions'', JString exts),
            (''launchfile'', JString (launchfile t)),
            (''stopAtEntry'', JBoolean (getStopSimulationOnEntry prefs)),
            (''workspace'', JWorkspaceFolder w)]],
        Inr True)"
  by (simp add: SimulateCodeDeployer_launch_def Let_def)

lemma simulate_cancel:
  assumes "ShowQuickPick_extensions items opts \<in> set (fst (SimulateCodeDeployer_runDeployer h api t w))"
    and "showQuickPick_extensions h items opts = None"
  shows "snd (SimulateCodeDeployer_runDeployer h api t w) = Inr True \<and>
     (\<exists>cfg. launches (fst (SimulateCodeDeployer_runDeployer h api t w)) =
        [if getIsWindows h then StartWindowsSimulation cfg else StartUnixSimulation cfg] \<and>
        get_property cfg ''extensions'' = Some (JString []))"
  using assms
  by (cases "getIsWindows h")
     (auto simp: SimulateCodeDeployer_runDeployer.simps Let_def split_beta
        select_launches select_no_extension_pick extensions_launches
        SimulateCodeDeployer_launch_windows SimulateCodeDeployer_launch_unix get_property_def
      split: option.splits if_splits sum.splits
      dest: extensions_dismissed)

text \<open>
  C4. If, during a run of the debug variant, the artifact picker is shown and dismissed,
  the run returns false and has called no launcher. If, during a run of the simulate
  variant, the extensions picker is shown and dismissed, the run returns true and has
  called exactly one launcher, the Windows one on a Windows host and the Unix one
  otherwise, with a configuration whose \<open>extensions\<close> is the empty string.
\<close>

theorem runDeployer_cancellation:
  "(ShowQuickPick_ICppDebugInfo arr opts \<in> set (fst (DebugCodeDeployer_runDeployer h api t w)) \<and>
    showQuickPick_ICppDebugInfo h arr opts = None \<longrightarrow>
      snd (DebugCodeDeployer_runDeployer h api t w) = Inr False \<and>
      launches (fst (DebugCodeDeployer_runDeployer h api t w)) = []) \<and>
   (ShowQuickPick_extensions items opts' \<in> set (fst (SimulateCodeDeployer_runDeployer h' api' t' w')) \<and>
    showQuickPick_extensions h' items opts' = None \<longrightarrow>
      snd (SimulateCodeDeployer_runDeployer h' api' t' w') = Inr True \<and>
      (\<exists>cfg. launches (fst (SimulateCodeDeployer_runDeployer h' api' t' w')) =
         [if getIsWindows h' then StartWindowsSimulation cfg else StartUnixSimulation cfg] \<and>
         get_property cfg ''extensions'' = Some (JString [])))"
  using debug_cancel simulate_cancel by blast

lemma folder_r_path: "fsPath (uri folder_r) = ''/r''"
  by (simp add: folder_r_def)

lemma example_debug_run:
  "DebugCodeDeployer_runDeployer example_host
     (getPreferences (Create example_settings (Some [folder_r]))) 900 folder_r =
   ([GradleRun ''deploy -PdebugMode -PteamNumber=900'' ''/r'' folder_r True,
     ReadFileAsync ''/r/build/debug/debuginfo.json'',
     ShowQuickPick_ICppDebugInfo
       [\<lparr>debugInfo = \<lparr>debugfile = ''frcUserProgram.json'', artifact = ''frcUserProgram''\<rparr>,
         label = Some ''frcUserProgram''\<rparr>,
        \<lparr>debugInfo = \<lparr>debugfile = ''vision.json'', artifact = ''vision''\<rparr>,
         label = Some ''vision''\<rparr>]
       \<lparr>canPickMany = None, placeHolder = ''Select an artifact''\<rparr>,
     ShowInformationMessage ''Artifact cancelled''],
    Inr False)"
  by (simp add: DebugCodeDeployer_runDeployer_def example_api_r DebugCodeDeployer_select_def
      example_host_def example_artifacts_def folder_r_path number_to_string_def nat_to_string.simps digit_char_def
      index0_def Let_def)

lemma example_simulate_run:
  "SimulateCodeDeployer_runDeployer example_host
     (getPreferences (Create example_settings (Some [folder_r]))) t folder_r =
   ([GradleRun ''simulateExternalCpp'' ''/r'' folder_r True,
     ReadFileAsync ''/r/build/debug/desktopinfo.json'',
     ShowQuickPick_extensions
       [\<lparr>item_label = ''libhalsim_gui.so'', item_path = ''/r/build/ext/libhalsim_gui.so''\<rparr>]
       \<lparr>canPickMany = Some True, placeHolder = ''Pick extensions to run''\<rparr>,
     StartUnixSimulation
       [(''clang'', JBoolean False),
        (''executablePath'', JString ''/r/build/exe/frcUserProgram''),
        (''extensions'', JString []),
        (''soLibPath'', JString ''/a;/a;/b''),
        (''srcPaths'', JSet [''/r/src/main/cpp'']),
        (''stopAtEntry'', JBoolean False),
        (''workspace'', JWorkspaceFolder folder_r)]],
    Inr True)"
  by (simp add: SimulateCodeDeployer_runDeployer.simps example_api_r
      SimulateCodeDeployer_select_def SimulateCodeDeployer_extensions_def
      SimulateCodeDeployer_launch_def soLibPath_of_def new_Set_def Set_add_def substring0_def
      posix_dirname_def posix_basename_def
      example_host_def example_target_def folder_r_path index0_def Let_def)


text \<open>
  On the example host every picker is dismissed: the debug run stops at the artifact
  picker, the simulate run goes on past the extensions picker to the Unix launcher.
\<close>

theorem runDeployer_cancellation_witness:
  "snd (DebugCodeDeployer_runDeployer example_host
          (getPreferences (Create example_settings (Some [folder_r]))) 900 folder_r) = Inr False \<and>
   launches (fst (DebugCodeDeployer_runDeployer example_host
          (getPreferences (Create example_settings (Some [folder_r]))) 900 folder_r)) = [] \<and>
   snd (SimulateCodeDeployer_runDeployer example_host
          (getPreferences (Create example_settings (Some [folder_r]))) 900 folder_r) = Inr True \<and>
   (\<exists>cfg. launches (fst (SimulateCodeDeployer_runDeployer example_host
          (getPreferences (Create example_settings (Some [folder_r]))) 900 folder_r)) =
        [StartUnixSimulation cfg] \<and>
      get_property cfg ''extensions'' = Some (JString []))"
  using
    runDeployer_cancellation
      [where h = example_host and h' = example_host
         and api = "getPreferences (Create example_settings (Some [folder_r]))"
         and api' = "getPreferences (Create example_settings (Some [folder_r]))"
         and t = 900 and t' = 900 and w = folder_r and w' = folder_r
         and arr = "[\<lparr>debugInfo = \<lparr>debugfile = ''frcUserProgram.json'', artifact = ''frcUserProgram''\<rparr>,
                      label = Some ''frcUserProgram''\<rparr>,
                     \<lparr>debugInfo = \<lparr>debugfile = ''vision.json'', artifact = ''vision''\<rparr>,
                      label = Some ''vision''\<rparr>]"
         and opts = "\<lparr>canPickMany = None, placeHolder = ''Select an artifact''\<rparr>"
         and items = "[\<lparr>item_label = ''libhalsim_gui.so'',
                         item_path = ''/r/build/ext/libhalsim_gui.so''\<rparr>]"
         and opts' = "\<lparr>canPickMany = Some True, placeHolder = ''Pick extensions to run''\<rparr>"]
  by (simp add: example_debug_run example_simulate_run)
     (simp add: example_host_def)

section \<open>The platform branch of the simulate variant\<close>





section \<open>The team number of the simulate variant\<close>

lemma select_no_build:
  "GradleRun c d f b \<notin> set (fst (SimulateCodeDeployer_select h parsed))"
  by (simp add: SimulateCodeDeployer_select_def Let_def split: option.splits)

lemma extensions_no_build:
  "GradleRun c d f b \<notin> set (fst (SimulateCodeDeployer_extensions h tgt))"
  by (simp add: SimulateCodeDeployer_extensions_def Let_def split: option.splits)

lemma launch_no_build:
  "GradleRun c d f b \<notin> set (fst (SimulateCodeDeployer_launch h api w tgt exts))"
  by (simp add: SimulateCodeDeployer_launch_def Let_def split: option.splits)

lemma simulate_command:
  "GradleRun c d f b \<in> set (fst (SimulateCodeDeployer_runDeployer h api t w)) \<Longrightarrow>
     c = ''simulateExternalCpp''"
  by (auto simp: SimulateCodeDeployer_runDeployer.simps Let_def split_beta
        select_no_build extensions_no_build launch_no_build
      split: option.splits if_splits sum.splits)

text \<open>
  C10. Two runs of the simulate variant that differ in the team number only make the
  same calls, in the same order, and end the same way; the command of every call of the
  build-runner is \<open>simulateExternalCpp\<close>, whatever the team number.
\<close>

theorem simulate_ignores_teamNumber:
  "SimulateCodeDeployer_runDeployer h api t1 w = SimulateCodeDeployer_runDeployer h api t2 w \<and>
   (\<forall>c d f b. GradleRun c d f b \<in> set (fst (SimulateCodeDeployer_runDeployer h api t1 w)) \<longrightarrow>
      c = ''simulateExternalCpp'')"
  using simulate_command by (simp add: SimulateCodeDeployer_runDeployer.simps)

theorem simulate_ignores_teamNumber_witness:
  "SimulateCodeDeployer_runDeployer example_host
     (getPreferences (Create example_settings (Some [folder_r]))) 900 folder_r =
   SimulateCodeDeployer_runDeployer example_host
     (getPreferences (Create example_settings (Some [folder_r]))) 254 folder_r \<and>
   GradleRun ''simulateExternalCpp'' ''/r'' folder_r True \<in>
     set (fst (SimulateCodeDeployer_runDeployer example_host
       (getPreferences (Create example_settings (Some [folder_r]))) 900 folder_r))"
  using
    simulate_ignores_teamNumber [of example_host
      "getPreferences (Create example_settings (Some [folder_r]))" 900 folder_r 254]
  by (simp add: example_simulate_run)

end
